theory Spec2Isabelle
  imports Complex_Main "HOL-Library.Sublist"
begin

section \<open>The device facade of sodium (src/sodium/driver.py)\<close>

text \<open>
  The class \<open>Driver\<close> wraps an adb device handle (\<open>self._adb\<close>) and offers one read
  accessor per device property. Every accessor either delegates to a method of the adb
  collaborator or runs a shell command through \<open>Driver.shell\<close> and post-processes the
  text with \<open>re.search\<close>, \<open>int\<close>, \<open>or\<close> and \<open>==\<close>.

  Conventions of the model:
  \<^item> text is a \<open>string\<close>; a character stands for a code point below 256;
  \<^item> a Python exception is a value \<open>Inl e\<close> of the result type \<open>exn + 'a\<close>;
  \<^item> the collaborator is a record of its answers, and every call made on it is
    appended to a log that is threaded through the accessors, so that which commands
    ran, and in what order, is part of each result.
\<close>

subsection \<open>Exceptions, the adb collaborator and the call log\<close>

datatype failure = Transport | Timeout | NonZeroStatus

datatype exn = CommandFailure failure | AttributeError | ValueError | TypeError

record WindowSize =
  width :: int
  height :: int

text \<open>
  The methods of \<open>self._adb\<close> that the accessors below call. Each may raise. The
  timeout of \<open>shell\<close>, a float in the source, is only handed on.
\<close>

record adb =
  adb_shell :: "string \<Rightarrow> real option \<Rightarrow> exn + string"
  adb_rotation :: "exn + int"
  adb_raw_window_size :: "exn + WindowSize"
  adb_window_size :: "exn + WindowSize"

datatype call = Shell string "real option" | Rotation | RawWindowSize | WindowSizeCall

type_synonym 'a io = "call list \<Rightarrow> (exn + 'a) \<times> call list"

definition return_io :: "'a \<Rightarrow> 'a io" where
  "return_io x tr = (Inr x, tr)"

definition raise_io :: "exn \<Rightarrow> 'a io" where
  "raise_io e tr = (Inl e, tr)"

definition lift_io :: "exn + 'a \<Rightarrow> 'a io" where
  "lift_io r tr = (r, tr)"

text \<open>Sequencing: an exception of the first computation ends the whole one.\<close>

definition bind_io :: "'a io \<Rightarrow> ('a \<Rightarrow> 'b io) \<Rightarrow> 'b io" where
  "bind_io m f tr =
     (case m tr of (Inl e, tr') \<Rightarrow> (Inl e, tr') | (Inr x, tr') \<Rightarrow> f x tr')"

text \<open>\<open>Driver.shell\<close>: \<open>return self._adb.shell(cmdargs, timeout=timeout)\<close>.\<close>

definition shell :: "adb \<Rightarrow> string \<Rightarrow> real option \<Rightarrow> string io" where
  "shell d cmdargs timeout tr = (adb_shell d cmdargs timeout, tr @ [Shell cmdargs timeout])"

text \<open>
  \<open>a or b\<close> on strings: \<open>a\<close> is evaluated; when it is truthy (non-empty) it is the
  result and \<open>b\<close> is not evaluated, otherwise \<open>b\<close> is evaluated and is the result.
\<close>

definition py_or :: "string io \<Rightarrow> string io \<Rightarrow> string io" where
  "py_or a b = bind_io a (\<lambda>x. if x \<noteq> [] then return_io x else b)"

subsection \<open>\<open>int(str)\<close>\<close>

text \<open>
  CPython's \<open>int\<close> on a string, base 10: leading whitespace, an optional sign, decimal
  digits with single underscores between them, trailing whitespace; anything else is
  a \<open>ValueError\<close>, and so is a literal of more than \<open>sys.int_max_str_digits\<close> digits
  (4300 by default, leading zeros counted). Below code point 256 the whitespace that
  \<open>int\<close> skips is 9 to 13, 32, 133 and 160, and the digits are \<open>0\<close> to \<open>9\<close>.
\<close>

definition is_space :: "char \<Rightarrow> bool" where
  "is_space c = ((of_char c :: nat) \<in> {9, 10, 11, 12, 13, 32, 133, 160})"

definition is_digit :: "char \<Rightarrow> bool" where
  "is_digit c = (48 \<le> (of_char c :: nat) \<and> (of_char c :: nat) \<le> 57)"

definition digit_val :: "char \<Rightarrow> int" where
  "digit_val c = int (of_char c) - 48"

definition int_max_str_digits :: nat where
  "int_max_str_digits = 4300"

text \<open>
  The scan over digits and underscores, with the previous character at hand: a double
  or trailing underscore is refused; the scan stops at the first other character.
\<close>

fun scan_digits :: "char \<Rightarrow> string \<Rightarrow> int list \<Rightarrow> (int list \<times> string) option" where
  "scan_digits prev [] ds = (if prev = CHR ''_'' then None else Some (ds, []))"
| "scan_digits prev (x # xs) ds =
     (if is_digit x then scan_digits x xs (ds @ [digit_val x])
      else if x = CHR ''_'' then (if prev = CHR ''_'' then None else scan_digits x xs ds)
      else if prev = CHR ''_'' then None else Some (ds, x # xs))"

definition strip_sign :: "string \<Rightarrow> bool \<times> string" where
  "strip_sign s =
     (case s of [] \<Rightarrow> (False, [])
      | x # xs \<Rightarrow> if x = CHR ''+'' then (False, xs)
                 else if x = CHR ''-'' then (True, xs) else (False, x # xs))"

definition py_int :: "string \<Rightarrow> exn + int" where
  "py_int s =
     (let (neg, body) = strip_sign (dropWhile is_space s) in
      if take 1 body = ''_'' then Inl ValueError
      else case scan_digits (CHR 0x00) body [] of
        None \<Rightarrow> Inl ValueError
      | Some (ds, rest) \<Rightarrow>
          if ds = [] \<or> dropWhile is_space rest \<noteq> [] \<or> int_max_str_digits < length ds
          then Inl ValueError
          else let n = foldl (\<lambda>a d. 10 * a + d) 0 ds in Inr (if neg then - n else n))"

subsection \<open>\<open>re.search\<close> on the patterns of the source\<close>

text \<open>
  The patterns of the source use literal text, the classes \<open>.\<close> and \<open>[0-9]\<close>, the
  repetitions \<open>+\<close> and \<open>+?\<close> of one such class, alternation and numbered groups. The
  matcher is the backtracking one of \<open>re\<close>: at a position, alternatives are tried left
  to right, \<open>+\<close> tries the longest repetition first and \<open>+?\<close> the shortest, and the
  first way through that lets the rest of the pattern match is the match. The rest of
  the pattern is the continuation \<open>k\<close>. \<open>re.search\<close> tries the positions of the text
  from left to right.
\<close>

datatype atom = Chr char | AnyChar | Range char char

fun atom_ok :: "atom \<Rightarrow> char \<Rightarrow> bool" where
  "atom_ok (Chr c) x = (x = c)"
| "atom_ok AnyChar x = (x \<noteq> CHR 0x0A)"
| "atom_ok (Range lo hi) x =
     ((of_char lo :: nat) \<le> of_char x \<and> (of_char x :: nat) \<le> of_char hi)"

datatype regex =
    Str string
  | Atom atom
  | Seq regex regex
  | Alt regex regex
  | Plus atom
  | PlusLazy atom
  | Group nat regex

text \<open>A match object: the text of each group that took part, group 0 the whole match.\<close>

type_synonym match = "(nat \<times> string) list"

type_synonym cont = "string \<Rightarrow> match \<Rightarrow> match option"

fun match_str :: "string \<Rightarrow> string \<Rightarrow> string option" where
  "match_str [] s = Some s"
| "match_str (c # cs) [] = None"
| "match_str (c # cs) (x # xs) = (if x = c then match_str cs xs else None)"

fun star_greedy :: "atom \<Rightarrow> string \<Rightarrow> (string \<Rightarrow> match option) \<Rightarrow> match option" where
  "star_greedy a [] k = k []"
| "star_greedy a (x # xs) k =
     (if atom_ok a x
      then (case star_greedy a xs k of Some m \<Rightarrow> Some m | None \<Rightarrow> k (x # xs))
      else k (x # xs))"

fun star_lazy :: "atom \<Rightarrow> string \<Rightarrow> (string \<Rightarrow> match option) \<Rightarrow> match option" where
  "star_lazy a [] k = k []"
| "star_lazy a (x # xs) k =
     (case k (x # xs) of Some m \<Rightarrow> Some m
      | None \<Rightarrow> if atom_ok a x then star_lazy a xs k else None)"

fun regex_match :: "regex \<Rightarrow> string \<Rightarrow> match \<Rightarrow> cont \<Rightarrow> match option" where
  "regex_match (Str w) s c k = (case match_str w s of None \<Rightarrow> None | Some s' \<Rightarrow> k s' c)"
| "regex_match (Atom a) s c k =
     (case s of [] \<Rightarrow> None | x # xs \<Rightarrow> if atom_ok a x then k xs c else None)"
| "regex_match (Seq r1 r2) s c k = regex_match r1 s c (\<lambda>s' c'. regex_match r2 s' c' k)"
| "regex_match (Alt r1 r2) s c k =
     (case regex_match r1 s c k of Some m \<Rightarrow> Some m | None \<Rightarrow> regex_match r2 s c k)"
| "regex_match (Plus a) s c k =
     (case s of [] \<Rightarrow> None
      | x # xs \<Rightarrow> if atom_ok a x then star_greedy a xs (\<lambda>s'. k s' c) else None)"
| "regex_match (PlusLazy a) s c k =
     (case s of [] \<Rightarrow> None
      | x # xs \<Rightarrow> if atom_ok a x then star_lazy a xs (\<lambda>s'. k s' c) else None)"
| "regex_match (Group n r) s c k =
     regex_match r s c (\<lambda>s' c'. k s' ((n, take (length s - length s') s) # c'))"

text \<open>\<open>re.match\<close>: a match that starts at the first character of the text.\<close>

definition re_match :: "regex \<Rightarrow> string \<Rightarrow> match option" where
  "re_match r s =
     regex_match r s [] (\<lambda>s' c. Some ((0, take (length s - length s') s) # c))"

fun re_search :: "regex \<Rightarrow> string \<Rightarrow> match option" where
  "re_search r [] = re_match r []"
| "re_search r (x # xs) =
     (case re_match r (x # xs) of Some m \<Rightarrow> Some m | None \<Rightarrow> re_search r xs)"

text \<open>\<open>m.group(i)\<close>: the text of group \<open>i\<close>, \<open>None\<close> for a group that took no part.\<close>

definition group :: "match \<Rightarrow> nat \<Rightarrow> string option" where
  "group m i = map_of m i"

definition digit :: atom where
  "digit = Range CHR ''0'' CHR ''9''"

text \<open>\<^verbatim>\<open>"mInputShown=(true|false)"\<close>\<close>

definition ime_pat :: regex where
  "ime_pat = Seq (Str ''mInputShown='') (Group 1 (Alt (Str ''true'') (Str ''false'')))"

text \<open>\<^verbatim>\<open>"mScreenOffTimeoutSetting=([0-9]+)"\<close>\<close>

definition timeout_pat :: regex where
  "timeout_pat = Seq (Str ''mScreenOffTimeoutSetting='') (Group 1 (Plus digit))"

text \<open>\<^verbatim>\<open>"Max: ([0-9]+)\n"\<close>\<close>

definition max_pat :: regex where
  "max_pat = Seq (Str ''Max: '') (Seq (Group 1 (Plus digit)) (Str ''\<newline>''))"

text \<open>\<^verbatim>\<open>'(networkId|wifiNetworkKey)="(.+?)"'\<close>\<close>

definition ssid_pat :: regex where
  \<open>ssid_pat =
     Seq (Group 1 (Alt (Str ''networkId'') (Str ''wifiNetworkKey'')))
       (Seq (Str ''="'') (Seq (Group 2 (PlusLazy AnyChar)) (Str ''"'')))\<close>

text \<open>\<^verbatim>\<open>"name: (.+)\n"\<close>\<close>

definition name_pat :: regex where
  "name_pat = Seq (Str ''name: '') (Seq (Group 1 (Plus AnyChar)) (Str ''\<newline>''))"

subsection \<open>The accessors\<close>

text \<open>\<open>status = int(self.shell("settings get global bluetooth_on")); return status == 1\<close>\<close>

definition bluetooth_on :: "adb \<Rightarrow> bool io" where
  "bluetooth_on d =
     bind_io (shell d ''settings get global bluetooth_on'' None) (\<lambda>out.
     bind_io (lift_io (py_int out)) (\<lambda>status.
     return_io (status = 1)))"

text \<open>
  \<open>re.search(...).group(1)\<close>: when the search finds nothing its result is \<open>None\<close>, and
  \<open>None.group\<close> raises \<open>AttributeError\<close>. \<open>value == "true"\<close> compares the group's text
  (or \<open>None\<close>) with the literal.
\<close>

definition is_ime_active :: "adb \<Rightarrow> bool io" where
  "is_ime_active d =
     bind_io (shell d ''dumpsys input_method | grep mInputShown'' None) (\<lambda>out.
     case re_search ime_pat out of
       None \<Rightarrow> raise_io AttributeError
     | Some m \<Rightarrow> return_io (group m 1 = Some ''true''))"

definition get_brand :: "adb \<Rightarrow> string io" where
  "get_brand d =
     py_or (shell d ''getprop persist.sys.romtype'' None)
           (shell d ''getprop ro.product.manufacturer'' None)"

definition get_locale :: "adb \<Rightarrow> string io" where
  "get_locale d =
     py_or (shell d ''getprop persist.sys.locale'' None)
           (shell d ''getprop ro.product.locale'' None)"

definition get_system_version :: "adb \<Rightarrow> int io" where
  "get_system_version d =
     bind_io (shell d ''getprop ro.build.version.release'' None) (\<lambda>v.
     lift_io (py_int v))"

definition get_device_model :: "adb \<Rightarrow> string io" where
  "get_device_model d =
     py_or (shell d ''getprop persist.sys.device'' None)
           (shell d ''getprop ro.product.model'' None)"

text \<open>
  \<open>if self._adb.rotation() == 0: return self._adb.__getattribute__("_raw_window_size")()\<close>,
  \<open>return self._adb.window_size()\<close> otherwise.
\<close>

definition get_window_size :: "adb \<Rightarrow> WindowSize io" where
  "get_window_size d =
     bind_io (\<lambda>tr. (adb_rotation d, tr @ [Rotation])) (\<lambda>r.
     if r = 0 then (\<lambda>tr. (adb_raw_window_size d, tr @ [RawWindowSize]))
     else (\<lambda>tr. (adb_window_size d, tr @ [WindowSizeCall])))"

text \<open>\<open>int(None)\<close> raises \<open>TypeError\<close>; \<open>int\<close> of a text is \<open>py_int\<close>.\<close>

definition int_of_group :: "string option \<Rightarrow> exn + int" where
  "int_of_group g = (case g of None \<Rightarrow> Inl TypeError | Some s \<Rightarrow> py_int s)"

definition get_screen_timeout :: "adb \<Rightarrow> int io" where
  "get_screen_timeout d =
     bind_io (shell d ''dumpsys power | grep  mScreenOffTimeoutSetting'' None) (\<lambda>out.
     case re_search timeout_pat out of
       None \<Rightarrow> raise_io AttributeError
     | Some m \<Rightarrow> lift_io (int_of_group (group m 1)))"

definition get_max_volume_level :: "adb \<Rightarrow> int io" where
  \<open>get_max_volume_level d =
     bind_io (shell d ''dumpsys audio | grep -A 5 "STREAM_MUSIC"'' None) (\<lambda>out.
     case re_search max_pat out of
       None \<Rightarrow> raise_io AttributeError
     | Some m \<Rightarrow> lift_io (int_of_group (group m 1)))\<close>

text \<open>
  \<open>if not (m := re.search(...)): return\<close> gives \<open>None\<close>; a match object is always
  truthy, and then the result is \<open>m.group(2)\<close>.
\<close>

definition get_current_ssid :: "adb \<Rightarrow> string option io" where
  \<open>get_current_ssid d =
     bind_io (shell d ''dumpsys netstats | grep -E "iface=wlan"'' None) (\<lambda>out.
     case re_search ssid_pat out of
       None \<Rightarrow> return_io None
     | Some m \<Rightarrow> return_io (group m 2))\<close>

definition get_bluetooth_name :: "adb \<Rightarrow> string option io" where
  "get_bluetooth_name d =
     bind_io (shell d ''dumpsys bluetooth_manager'' None) (\<lambda>out.
     case re_search name_pat out of
       None \<Rightarrow> raise_io AttributeError
     | Some m \<Rightarrow> return_io (group m 1))"

subsection \<open>Example devices\<close>

text \<open>
  Devices given by a table of answers to shell commands (the empty text for a command
  that is not in the table) and a rotation.
\<close>

definition answers :: "(string \<times> (exn + string)) list \<Rightarrow> string \<Rightarrow> exn + string" where
  "answers tab c = (case map_of tab c of Some r \<Rightarrow> r | None \<Rightarrow> Inr [])"

definition device :: "(string \<times> (exn + string)) list \<Rightarrow> int \<Rightarrow> adb" where
  "device tab r =
     \<lparr>adb_shell = (\<lambda>c t. answers tab c), adb_rotation = Inr r,
      adb_raw_window_size = Inr \<lparr>width = 1080, height = 1920\<rparr>,
      adb_window_size = Inr \<lparr>width = 1920, height = 1080\<rparr>\<rparr>"

definition dev_generic :: adb where
  "dev_generic = device
     [(''getprop persist.sys.romtype'', Inr ''''),
      (''getprop ro.product.manufacturer'', Inr ''Xiaomi''),
      (''getprop persist.sys.locale'', Inr ''''),
      (''getprop ro.product.locale'', Inr ''en-US''),
      (''getprop persist.sys.device'', Inr ''''),
      (''getprop ro.product.model'', Inr ''Pixel 6'')] 0"

definition dev_vendor :: adb where
  "dev_vendor = device
     [(''getprop persist.sys.romtype'', Inr ''MIUI''),
      (''getprop ro.product.manufacturer'', Inr ''Xiaomi''),
      (''getprop persist.sys.locale'', Inr ''zh-CN''),
      (''getprop ro.product.locale'', Inr ''en-US''),
      (''getprop persist.sys.device'', Inr ''cepheus''),
      (''getprop ro.product.model'', Inr ''MI 9'')] 0"

definition dev_unreachable_first :: adb where
  "dev_unreachable_first = device
     [(''getprop persist.sys.romtype'', Inl (CommandFailure Timeout)),
      (''getprop ro.product.manufacturer'', Inr ''Xiaomi''),
      (''getprop persist.sys.locale'', Inl (CommandFailure Transport)),
      (''getprop ro.product.locale'', Inr ''en-US''),
      (''getprop persist.sys.device'', Inl (CommandFailure NonZeroStatus)),
      (''getprop ro.product.model'', Inr ''Pixel 6'')] 0"

definition dev_bt :: "string \<Rightarrow> adb" where
  "dev_bt out = device [(''settings get global bluetooth_on'', Inr out)] 0"

definition dev_version :: "string \<Rightarrow> adb" where
  "dev_version out = device [(''getprop ro.build.version.release'', Inr out)] 0"

definition dev_power :: "string \<Rightarrow> adb" where
  "dev_power out = device [(''dumpsys power | grep  mScreenOffTimeoutSetting'', Inr out)] 0"

definition dev_audio :: "string \<Rightarrow> adb" where
  \<open>dev_audio out = device [(''dumpsys audio | grep -A 5 "STREAM_MUSIC"'', Inr out)] 0\<close>

definition dev_netstats :: "string \<Rightarrow> adb" where
  \<open>dev_netstats out = device [(''dumpsys netstats | grep -E "iface=wlan"'', Inr out)] 0\<close>

definition dev_no_match :: adb where
  \<open>dev_no_match = device
     [(''dumpsys input_method | grep mInputShown'', Inr ''mShowRequested=false''),
      (''dumpsys power | grep  mScreenOffTimeoutSetting'', Inr ''mScreenOffTimeoutSetting=-1''),
      (''dumpsys bluetooth_manager'', Inr ''  name: Pixel 6''),
      (''dumpsys audio | grep -A 5 "STREAM_MUSIC"'', Inr ''   Max: 15'')] 0\<close>

definition long_digits :: string where
  "long_digits = replicate 4301 CHR ''9''"

subsection \<open>Vocabulary of the statements\<close>

text \<open>
  A text has a quoted key when somewhere in it the key is followed by \<^verbatim>\<open>="\<close>, a
  non-empty value and a closing quote.
\<close>

definition quoted_key :: "string \<Rightarrow> string \<Rightarrow> bool" where
  \<open>quoted_key key out =
     (\<exists>pre v post. out = pre @ key @ ''="'' @ v @ ''"'' @ post \<and> v \<noteq> [])\<close>

section \<open>Properties of the accessors\<close>

subsection \<open>Fallback chains: \<open>a or b\<close>\<close>

lemma py_or_empty:
  "a tr = (Inr [], tr1) \<Longrightarrow> py_or a b tr = b tr1"
  by (simp add: py_or_def bind_io_def)

lemma py_or_nonempty:
  "a tr = (Inr v, tr1) \<Longrightarrow> v \<noteq> [] \<Longrightarrow> py_or a b tr = (Inr v, tr1)"
  by (simp add: py_or_def bind_io_def return_io_def)

lemma py_or_raise:
  "a tr = (Inl e, tr1) \<Longrightarrow> py_or a b tr = (Inl e, tr1)"
  by (simp add: py_or_def bind_io_def)

text \<open>
  C1. When the vendor-specific first command answers the empty text and the generic
  second command answers \<open>v\<close>, each of \<open>get_brand\<close>, \<open>get_locale\<close> and
  \<open>get_device_model\<close> returns \<open>v\<close>, and the calls it adds to the log are the first
  command once, then the second command once.
\<close>

theorem fallback_on_empty:
  "(adb_shell d ''getprop persist.sys.romtype'' None = Inr [] \<and>
    adb_shell d ''getprop ro.product.manufacturer'' None = Inr v \<longrightarrow>
    get_brand d tr = (Inr v, tr @ [Shell ''getprop persist.sys.romtype'' None,
                                   Shell ''getprop ro.product.manufacturer'' None])) \<and>
   (adb_shell d ''getprop persist.sys.locale'' None = Inr [] \<and>
    adb_shell d ''getprop ro.product.locale'' None = Inr v \<longrightarrow>
    get_locale d tr = (Inr v, tr @ [Shell ''getprop persist.sys.locale'' None,
                                    Shell ''getprop ro.product.locale'' None])) \<and>
   (adb_shell d ''getprop persist.sys.device'' None = Inr [] \<and>
    adb_shell d ''getprop ro.product.model'' None = Inr v \<longrightarrow>
    get_device_model d tr = (Inr v, tr @ [Shell ''getprop persist.sys.device'' None,
                                          Shell ''getprop ro.product.model'' None]))"
  by (simp add: get_brand_def get_locale_def get_device_model_def py_or_empty shell_def)

theorem fallback_on_empty_witness:
  "get_brand dev_generic [] =
     (Inr ''Xiaomi'', [Shell ''getprop persist.sys.romtype'' None,
                       Shell ''getprop ro.product.manufacturer'' None]) \<and>
   get_locale dev_generic [] =
     (Inr ''en-US'', [Shell ''getprop persist.sys.locale'' None,
                      Shell ''getprop ro.product.locale'' None]) \<and>
   get_device_model dev_generic [] =
     (Inr ''Pixel 6'', [Shell ''getprop persist.sys.device'' None,
                        Shell ''getprop ro.product.model'' None])"
  using fallback_on_empty [of dev_generic "''Xiaomi''" "[]"]
        fallback_on_empty [of dev_generic "''en-US''" "[]"]
        fallback_on_empty [of dev_generic "''Pixel 6''" "[]"]
  by (simp add: dev_generic_def device_def answers_def)

text \<open>
  C2. When the first command answers a non-empty text \<open>v1\<close>, each of the three
  accessors returns \<open>v1\<close> and the only call it adds to the log is the first command:
  the second command is not executed, whatever the device would answer to it.
\<close>

theorem first_success_short_circuit:
  "(adb_shell d ''getprop persist.sys.romtype'' None = Inr v1 \<and> v1 \<noteq> [] \<longrightarrow>
    get_brand d tr = (Inr v1, tr @ [Shell ''getprop persist.sys.romtype'' None])) \<and>
   (adb_shell d ''getprop persist.sys.locale'' None = Inr v1 \<and> v1 \<noteq> [] \<longrightarrow>
    get_locale d tr = (Inr v1, tr @ [Shell ''getprop persist.sys.locale'' None])) \<and>
   (adb_shell d ''getprop persist.sys.device'' None = Inr v1 \<and> v1 \<noteq> [] \<longrightarrow>
    get_device_model d tr = (Inr v1, tr @ [Shell ''getprop persist.sys.device'' None]))"
  by (simp add: get_brand_def get_locale_def get_device_model_def py_or_nonempty shell_def)

theorem first_success_short_circuit_witness:
  "get_brand dev_vendor [] = (Inr ''MIUI'', [Shell ''getprop persist.sys.romtype'' None]) \<and>
   get_locale dev_vendor [] = (Inr ''zh-CN'', [Shell ''getprop persist.sys.locale'' None]) \<and>
   get_device_model dev_vendor [] =
     (Inr ''cepheus'', [Shell ''getprop persist.sys.device'' None])"
  using first_success_short_circuit [of dev_vendor "''MIUI''" "[]"]
        first_success_short_circuit [of dev_vendor "''zh-CN''" "[]"]
        first_success_short_circuit [of dev_vendor "''cepheus''" "[]"]
  by (simp add: dev_vendor_def device_def answers_def)

text \<open>
  C4, as stated, fails: on a device whose first command times out and whose second
  command would answer \<open>Xiaomi\<close>, \<open>get_brand\<close> raises the failure of the first
  command and the second command is not executed.
\<close>

theorem command_failure_not_recovered:
  "adb_shell dev_unreachable_first ''getprop persist.sys.romtype'' None
     = Inl (CommandFailure Timeout) \<and>
   adb_shell dev_unreachable_first ''getprop ro.product.manufacturer'' None = Inr ''Xiaomi'' \<and>
   get_brand dev_unreachable_first [] =
     (Inl (CommandFailure Timeout), [Shell ''getprop persist.sys.romtype'' None])"
  by (simp add: get_brand_def py_or_raise shell_def dev_unreachable_first_def device_def
      answers_def)

text \<open>
  C4, amended. When the first command of \<open>get_brand\<close>, \<open>get_locale\<close> or
  \<open>get_device_model\<close> raises, the accessor raises the same exception to its caller
  and the only call it adds to the log is the first command: no second strategy is
  tried.
\<close>

theorem command_failure_propagates:
  "(adb_shell d ''getprop persist.sys.romtype'' None = Inl e \<longrightarrow>
    get_brand d tr = (Inl e, tr @ [Shell ''getprop persist.sys.romtype'' None])) \<and>
   (adb_shell d ''getprop persist.sys.locale'' None = Inl e \<longrightarrow>
    get_locale d tr = (Inl e, tr @ [Shell ''getprop persist.sys.locale'' None])) \<and>
   (adb_shell d ''getprop persist.sys.device'' None = Inl e \<longrightarrow>
    get_device_model d tr = (Inl e, tr @ [Shell ''getprop persist.sys.device'' None]))"
  by (simp add: get_brand_def get_locale_def get_device_model_def py_or_raise shell_def)

theorem command_failure_propagates_witness:
  "get_brand dev_unreachable_first [] =
     (Inl (CommandFailure Timeout), [Shell ''getprop persist.sys.romtype'' None]) \<and>
   get_locale dev_unreachable_first [] =
     (Inl (CommandFailure Transport), [Shell ''getprop persist.sys.locale'' None]) \<and>
   get_device_model dev_unreachable_first [] =
     (Inl (CommandFailure NonZeroStatus), [Shell ''getprop persist.sys.device'' None])"
  using command_failure_propagates [of dev_unreachable_first "CommandFailure Timeout" "[]"]
        command_failure_propagates [of dev_unreachable_first "CommandFailure Transport" "[]"]
        command_failure_propagates [of dev_unreachable_first "CommandFailure NonZeroStatus" "[]"]
  by (simp add: dev_unreachable_first_def device_def answers_def)

subsection \<open>\<open>bluetooth_on\<close>\<close>

lemma py_int_1: "py_int ''1'' = Inr 1"
  by (simp add: py_int_def strip_sign_def is_space_def is_digit_def digit_val_def
      int_max_str_digits_def)

lemma py_int_10: "py_int ''10'' = Inr 10"
  by (simp add: py_int_def strip_sign_def is_space_def is_digit_def digit_val_def
      int_max_str_digits_def)

lemma py_int_null: "py_int ''null'' = Inl ValueError"
  by (simp add: py_int_def strip_sign_def is_space_def is_digit_def digit_val_def
      int_max_str_digits_def)

lemma bluetooth_on_eq:
  "adb_shell d ''settings get global bluetooth_on'' None = Inr out \<Longrightarrow>
   bluetooth_on d tr =
     (case py_int out of Inl e \<Rightarrow> Inl e | Inr n \<Rightarrow> Inr (n = 1),
      tr @ [Shell ''settings get global bluetooth_on'' None])"
  by (simp add: bluetooth_on_def bind_io_def shell_def lift_io_def return_io_def
      split: sum.splits)

text \<open>
  C6. When \<open>settings get global bluetooth_on\<close> answers \<open>1\<close>, \<open>bluetooth_on\<close> is
  true; when it answers \<open>10\<close>, \<open>bluetooth_on\<close> is false.
\<close>

theorem bluetooth_literal_exact:
  "(adb_shell d ''settings get global bluetooth_on'' None = Inr ''1'' \<longrightarrow>
    bluetooth_on d tr = (Inr True, tr @ [Shell ''settings get global bluetooth_on'' None])) \<and>
   (adb_shell d ''settings get global bluetooth_on'' None = Inr ''10'' \<longrightarrow>
    bluetooth_on d tr = (Inr False, tr @ [Shell ''settings get global bluetooth_on'' None]))"
  by (simp add: bluetooth_on_eq py_int_1 py_int_10)

theorem bluetooth_literal_exact_witness:
  "bluetooth_on (dev_bt ''1'') [] =
     (Inr True, [Shell ''settings get global bluetooth_on'' None]) \<and>
   bluetooth_on (dev_bt ''10'') [] =
     (Inr False, [Shell ''settings get global bluetooth_on'' None])"
  using bluetooth_literal_exact [of "dev_bt ''1''" "[]"]
        bluetooth_literal_exact [of "dev_bt ''10''" "[]"]
  by (simp add: dev_bt_def device_def answers_def)

text \<open>
  C9. There is a shell output that is not a base-10 integer literal, \<open>null\<close>, on
  which \<open>bluetooth_on\<close> raises the \<open>ValueError\<close> of the integer conversion instead
  of returning false.
\<close>

theorem bluetooth_on_raises_on_null:
  "adb_shell d ''settings get global bluetooth_on'' None = Inr ''null'' \<Longrightarrow>
   bluetooth_on d tr = (Inl ValueError, tr @ [Shell ''settings get global bluetooth_on'' None])"
  by (simp add: bluetooth_on_eq py_int_null)

theorem bluetooth_on_raises_on_null_witness:
  "bluetooth_on (dev_bt ''null'') [] =
     (Inl ValueError, [Shell ''settings get global bluetooth_on'' None])"
  using bluetooth_on_raises_on_null [of "dev_bt ''null''" "[]"]
  by (simp add: dev_bt_def device_def answers_def)

subsection \<open>\<open>get_window_size\<close>\<close>

text \<open>
  C10. \<open>get_window_size\<close> asks the collaborator for the rotation; when it is 0 the
  result is what the collaborator's \<open>_raw_window_size\<close> gives, for every other
  rotation it is what \<open>window_size\<close> gives. In both branches the result is handed
  on as it is and no shell command is run.
\<close>

theorem window_size_by_rotation:
  "(adb_rotation d = Inr 0 \<longrightarrow>
    get_window_size d tr = (adb_raw_window_size d, tr @ [Rotation, RawWindowSize])) \<and>
   (adb_rotation d = Inr r \<and> r \<noteq> 0 \<longrightarrow>
    get_window_size d tr = (adb_window_size d, tr @ [Rotation, WindowSizeCall]))"
  by (simp add: get_window_size_def bind_io_def)

theorem window_size_by_rotation_witness:
  "get_window_size (device [] 0) [] =
     (Inr \<lparr>width = 1080, height = 1920\<rparr>, [Rotation, RawWindowSize]) \<and>
   get_window_size (device [] 1) [] =
     (Inr \<lparr>width = 1920, height = 1080\<rparr>, [Rotation, WindowSizeCall])"
  using window_size_by_rotation [of "device [] 0" "[]" 0]
        window_size_by_rotation [of "device [] 1" "[]" 1]
  by (simp add: device_def)

subsection \<open>Facts about \<open>int\<close>\<close>

lemma scan_digits_all:
  "\<forall>x\<in>set s. is_digit x \<Longrightarrow> s = [] \<longrightarrow> prev \<noteq> CHR ''_'' \<Longrightarrow>
   scan_digits prev s ds = Some (ds @ map digit_val s, [])"
proof (induction s arbitrary: prev ds)
  case Nil then show ?case by simp
next
  case (Cons x xs)
  have "x \<noteq> CHR ''_''" using Cons.prems(1) by (auto simp: is_digit_def)
  then show ?case using Cons by simp
qed

lemma py_int_too_long:
  assumes "\<forall>x\<in>set s. is_digit x" and "int_max_str_digits < length s"
  shows "py_int s = Inl ValueError"
proof -
  obtain x xs where s: "s = x # xs" using assms(2) by (cases s) auto
  have x: "is_digit x" using assms(1) s by simp
  then have "\<not> is_space x" and "x \<noteq> CHR ''+''" and "x \<noteq> CHR ''-''" and "x \<noteq> CHR ''_''"
    by (auto simp: is_digit_def is_space_def)
  then have "strip_sign (dropWhile is_space s) = (False, s)"
    by (simp add: s strip_sign_def)
  moreover have "scan_digits (CHR 0x00) s [] = Some (map digit_val s, [])"
    using scan_digits_all [OF assms(1), of "CHR 0x00" "[]"] by simp
  ultimately show ?thesis
    using assms(2) \<open>x \<noteq> CHR ''_''\<close> by (simp add: py_int_def s)
qed

lemma long_digits_facts:
  "long_digits \<noteq> []" "\<forall>x\<in>set long_digits. is_digit x" "int_max_str_digits < length long_digits"
  by (simp_all add: long_digits_def is_digit_def int_max_str_digits_def)

lemma py_int_release: "py_int ''8.1.0'' = Inl ValueError"
  by (simp add: py_int_def strip_sign_def is_space_def is_digit_def digit_val_def
      int_max_str_digits_def)

lemma py_int_15: "py_int ''15'' = Inr 15"
  by (simp add: py_int_def strip_sign_def is_space_def is_digit_def digit_val_def
      int_max_str_digits_def)

subsection \<open>Facts about the matcher\<close>

lemma match_str_iff: "match_str w s = Some t \<longleftrightarrow> s = w @ t"
  by (induction w s rule: match_str.induct) auto

lemma match_str_append [simp]: "match_str w (w @ t) = Some t"
  by (simp add: match_str_iff)

lemma star_greedy_all:
  "\<forall>x\<in>set xs. atom_ok a x \<Longrightarrow> k [] \<noteq> None \<Longrightarrow> star_greedy a xs k = k []"
  by (induction xs) (auto split: option.splits)

lemma star_greedy_until:
  "\<forall>x\<in>set xs. atom_ok a x \<Longrightarrow> \<not> atom_ok a y \<Longrightarrow> k (y # ys) \<noteq> None \<Longrightarrow>
   star_greedy a (xs @ y # ys) k = k (y # ys)"
  by (induction xs) (auto split: option.splits)

lemma re_search_hit: "re_match r s = Some m \<Longrightarrow> re_search r s = Some m"
  by (cases s) auto

lemma is_digit_atom: "atom_ok digit x = is_digit x"
  by (simp add: digit_def is_digit_def)

lemma consumed_all: "take (length (a @ b) - length b) (a @ b) = a"
  by simp

lemma re_match_str_plus:
  assumes "ds \<noteq> []" and "\<forall>x\<in>set ds. atom_ok a x"
  shows "re_match (Seq (Str w) (Group n (Plus a))) (w @ ds) = Some [(0, w @ ds), (n, ds)]"
proof -
  obtain x xs where ds: "ds = x # xs" using assms(1) by (cases ds) auto
  show ?thesis
    unfolding re_match_def using assms(2) by (simp add: ds star_greedy_all)
qed

lemma re_match_str_plus_str:
  assumes "ds \<noteq> []" and "\<forall>x\<in>set ds. atom_ok a x" and "\<not> atom_ok a y"
  shows "re_match (Seq (Str w) (Seq (Group n (Plus a)) (Str (y # ys)))) (w @ ds @ (y # ys) @ post)
           = Some [(0, w @ ds @ y # ys), (n, ds)]"
proof -
  obtain x xs where ds: "ds = x # xs" using assms(1) by (cases ds) auto
  have t: "take (length (w @ ds @ (y # ys) @ post) - length post) (w @ ds @ (y # ys) @ post)
             = w @ ds @ y # ys"
    using consumed_all [of "w @ ds @ y # ys" post] by simp
  have m: "match_str ys (ys @ post) = Some post" by simp
  show ?thesis
    unfolding re_match_def using assms(2,3) t m by (simp add: ds star_greedy_until)
qed

lemma timeout_pat_digits:
  assumes "ds \<noteq> []" and "\<forall>x\<in>set ds. is_digit x"
  shows "re_search timeout_pat (''mScreenOffTimeoutSetting='' @ ds) =
           Some [(0, ''mScreenOffTimeoutSetting='' @ ds), (1, ds)]"
  unfolding timeout_pat_def
  by (rule re_search_hit, rule re_match_str_plus) (use assms in \<open>simp_all add: is_digit_atom\<close>)

lemma max_pat_digits:
  assumes "ds \<noteq> []" and "\<forall>x\<in>set ds. is_digit x"
  shows "re_search max_pat (''Max: '' @ ds @ ''\<newline>'' @ post) =
           Some [(0, ''Max: '' @ ds @ ''\<newline>''), (1, ds)]"
  unfolding max_pat_def
  by (rule re_search_hit, rule re_match_str_plus_str)
     (use assms in \<open>simp_all add: is_digit_atom is_digit_def\<close>)

text \<open>Where \<open>re.search\<close> finds nothing, where it finds something, and what it skips.\<close>

lemma re_search_NoneI:
  "(\<And>t. suffix t s \<Longrightarrow> re_match r t = None) \<Longrightarrow> re_search r s = None"
proof (induction s)
  case Nil then show ?case by simp
next
  case (Cons x xs)
  have "re_match r (x # xs) = None" by (rule Cons.prems) simp
  moreover have "re_search r xs = None"
    by (rule Cons.IH, rule Cons.prems) (simp add: suffix_Cons)
  ultimately show ?case by simp
qed

lemma re_search_SomeD:
  "re_search r s = Some m \<Longrightarrow> \<exists>pre t. s = pre @ t \<and> re_match r t = Some m"
proof (induction s)
  case Nil then show ?case by simp
next
  case (Cons x xs)
  show ?case
  proof (cases "re_match r (x # xs)")
    case (Some m')
    with Cons.prems have "re_match r (x # xs) = Some m" by simp
    then show ?thesis by (intro exI [of _ "[]"] exI [of _ "x # xs"]) simp
  next
    case None
    with Cons.prems have "re_search r xs = Some m" by simp
    then obtain pre t where "xs = pre @ t" "re_match r t = Some m"
      using Cons.IH by blast
    then show ?thesis by (intro exI [of _ "x # pre"] exI [of _ t]) simp
  qed
qed

lemma re_search_skip:
  "(\<And>p. p \<noteq> [] \<Longrightarrow> suffix p pre \<Longrightarrow> re_match r (p @ s) = None) \<Longrightarrow>
   re_search r (pre @ s) = re_search r s"
proof (induction pre)
  case Nil then show ?case by simp
next
  case (Cons x xs)
  have "re_match r ((x # xs) @ s) = None" by (rule Cons.prems) simp_all
  moreover have "re_search r (xs @ s) = re_search r s"
    by (rule Cons.IH, rule Cons.prems) (simp_all add: suffix_Cons)
  ultimately show ?case by simp
qed

text \<open>
  A literal \<open>w\<close> cannot begin inside \<open>p\<close> and end in what follows when \<open>p\<close> does not
  contain \<open>w\<close> and what follows begins with a character that occurs nowhere in \<open>w\<close>
  after its first position.
\<close>

lemma straddle:
  assumes "prefix w (p @ y # ys)" and "\<not> sublist w p" and "y \<notin> set (tl w)"
  shows "p = []"
proof (rule ccontr)
  assume p: "p \<noteq> []"
  from assms(1) consider "prefix w p" | us where "w = p @ us" "prefix us (y # ys)"
    by (auto simp: prefix_append)
  then show False
  proof cases
    case 1
    then have "sublist w p" by (auto simp: prefix_def)
    with assms(2) show False by simp
  next
    case 2
    have "us \<noteq> []" using 2(1) assms(2) by auto
    then obtain us' where "us = y # us'" using 2(2) by (cases us) auto
    with 2(1) p have "y \<in> set (tl w)" by (cases p) auto
    with assms(3) show False by simp
  qed
qed

lemma re_search_first:
  assumes head: "\<And>t m. re_match r t = Some m \<Longrightarrow> \<exists>w\<in>W. prefix w t"
    and pre: "\<forall>w\<in>W. \<not> sublist w pre \<and> y \<notin> set (tl w)"
  shows "re_search r (pre @ y # ys) = re_search r (y # ys)"
proof (rule re_search_skip)
  fix p assume p: "p \<noteq> []" "suffix p pre"
  show "re_match r (p @ y # ys) = None"
  proof (rule ccontr)
    assume "re_match r (p @ y # ys) \<noteq> None"
    then obtain m where "re_match r (p @ y # ys) = Some m" by auto
    then obtain w where w: "w \<in> W" "prefix w (p @ y # ys)" using head by blast
    have "\<not> sublist w p"
    proof
      assume "sublist w p"
      then obtain ps ss zs where "p = ps @ w @ ss" "pre = zs @ p"
        using p(2) by (auto simp: sublist_def suffix_def)
      then have "pre = (zs @ ps) @ w @ ss" by simp
      then have "sublist w pre" unfolding sublist_def by blast
      with pre w(1) show False by simp
    qed
    with w pre have "p = []" by (intro straddle [of w p y ys]) auto
    with p(1) show False by simp
  qed
qed

lemma sublist_suffix_prefix: "suffix t s \<Longrightarrow> prefix w t \<Longrightarrow> sublist w s"
  by (auto simp: sublist_altdef')

text \<open>What a successful match says about the text, constructor by constructor.\<close>

lemma regex_match_Str_SomeD:
  "regex_match (Str w) s c k = Some m \<Longrightarrow> \<exists>t. s = w @ t \<and> k t c = Some m"
  by (auto simp: match_str_iff split: option.splits)

lemma star_lazy_SomeD:
  "star_lazy a s k = Some m \<Longrightarrow> \<exists>v t. s = v @ t \<and> k t = Some m"
proof (induction s)
  case Nil then show ?case by simp
next
  case (Cons x xs)
  show ?case
  proof (cases "k (x # xs)")
    case (Some m')
    with Cons.prems have "k (x # xs) = Some m" by simp
    then show ?thesis by (intro exI [of _ "[]"] exI [of _ "x # xs"]) simp
  next
    case None
    with Cons.prems have "star_lazy a xs k = Some m" by (simp split: if_splits)
    then obtain v t where "xs = v @ t" "k t = Some m" using Cons.IH by blast
    then show ?thesis by (intro exI [of _ "x # v"] exI [of _ t]) simp
  qed
qed

lemma regex_match_PlusLazy_SomeD:
  "regex_match (PlusLazy a) s c k = Some m \<Longrightarrow>
   \<exists>v t. v \<noteq> [] \<and> s = v @ t \<and> k t c = Some m"
proof (cases s)
  case Nil then show "regex_match (PlusLazy a) s c k = Some m \<Longrightarrow> ?thesis" by simp
next
  case (Cons x xs)
  assume "regex_match (PlusLazy a) s c k = Some m"
  then have "star_lazy a xs (\<lambda>s'. k s' c) = Some m" by (simp add: Cons split: if_splits)
  then obtain v t where "xs = v @ t" "k t c = Some m" by (blast dest: star_lazy_SomeD)
  then show ?thesis by (intro exI [of _ "x # v"] exI [of _ t]) (simp add: Cons)
qed

lemma regex_match_Alt_SomeD:
  "regex_match (Alt r1 r2) s c k = Some m \<Longrightarrow>
   regex_match r1 s c k = Some m \<or> regex_match r2 s c k = Some m"
  by (simp split: option.splits)

text \<open>The patterns of \<open>get_max_volume_level\<close> and \<open>get_current_ssid\<close>.\<close>

lemma max_pat_head: "re_match max_pat t = Some m \<Longrightarrow> prefix ''Max: '' t"
  unfolding re_match_def max_pat_def regex_match.simps(3)
  by (drule regex_match_Str_SomeD) auto

lemma max_pat_no_Max:
  assumes "\<not> sublist ''Max:'' out"
  shows "re_search max_pat out = None"
proof (rule re_search_NoneI)
  fix t assume t: "suffix t out"
  show "re_match max_pat t = None"
  proof (rule ccontr)
    assume "re_match max_pat t \<noteq> None"
    then obtain m where "re_match max_pat t = Some m" by auto
    then have "prefix ''Max: '' t" by (rule max_pat_head)
    then have "prefix ''Max:'' t" by (auto simp: prefix_def)
    with t assms show False by (blast dest: sublist_suffix_prefix)
  qed
qed

lemma max_pat_first:
  assumes "\<not> sublist ''Max: '' pre"
  shows "re_search max_pat (pre @ ''Max: 15\<newline>'' @ post)
           = Some [(0, ''Max: 15\<newline>''), (1, ''15'')]"
proof -
  have "re_search max_pat (pre @ CHR ''M'' # (''ax: 15\<newline>'' @ post))
          = re_search max_pat (CHR ''M'' # (''ax: 15\<newline>'' @ post))"
    by (rule re_search_first [where W = "{''Max: ''}"]) (use assms max_pat_head in auto)
  moreover have "re_search max_pat (''Max: '' @ ''15'' @ ''\<newline>'' @ post)
                   = Some [(0, ''Max: '' @ ''15'' @ ''\<newline>''), (1, ''15'')]"
    by (rule max_pat_digits) (simp_all add: is_digit_def)
  ultimately show ?thesis by simp
qed

lemma ssid_pat_sound:
  assumes "re_match ssid_pat t = Some m"
  shows \<open>\<exists>key v rest. (key = ''networkId'' \<or> key = ''wifiNetworkKey'') \<and> v \<noteq> [] \<and>
           t = key @ ''="'' @ v @ ''"'' @ rest\<close>
  using assms
  apply (simp only: re_match_def ssid_pat_def regex_match.simps(3,7))
  apply (drule regex_match_Alt_SomeD)
  apply (elim disjE)
   apply (drule regex_match_Str_SomeD, elim exE conjE)
   apply (drule regex_match_Str_SomeD, elim exE conjE)
   apply (drule regex_match_PlusLazy_SomeD, elim exE conjE)
   apply (drule regex_match_Str_SomeD, elim exE conjE)
   apply blast
  apply (drule regex_match_Str_SomeD, elim exE conjE)
  apply (drule regex_match_Str_SomeD, elim exE conjE)
  apply (drule regex_match_PlusLazy_SomeD, elim exE conjE)
  apply (drule regex_match_Str_SomeD, elim exE conjE)
  apply blast
  done

lemma ssid_pat_head:
  assumes "re_match ssid_pat t = Some m"
  shows \<open>\<exists>w\<in>{''networkId="'', ''wifiNetworkKey="''}. prefix w t\<close>
  using ssid_pat_sound [OF assms] by (auto simp: prefix_def)

lemma ssid_pat_first:
  assumes \<open>\<not> sublist ''networkId="'' pre\<close> and \<open>\<not> sublist ''wifiNetworkKey="'' pre\<close>
  shows \<open>\<exists>m. re_search ssid_pat (pre @ ''networkId="abc123"'' @ post) = Some m \<and>
              group m 2 = Some ''abc123''\<close>
proof -
  have \<open>re_search ssid_pat (pre @ CHR ''n'' # (''etworkId="abc123"'' @ post))
          = re_search ssid_pat (CHR ''n'' # (''etworkId="abc123"'' @ post))\<close>
    by (rule re_search_first [where W = \<open>{''networkId="'', ''wifiNetworkKey="''}\<close>])
       (use assms ssid_pat_head in auto)
  moreover have \<open>\<exists>m. re_search ssid_pat (''networkId="abc123"'' @ post) = Some m \<and>
                     group m 2 = Some ''abc123''\<close>
    by (simp add: ssid_pat_def re_match_def group_def)
  ultimately show ?thesis by simp
qed

lemma ssid_pat_no_key:
  assumes "\<not> quoted_key ''networkId'' out" and "\<not> quoted_key ''wifiNetworkKey'' out"
  shows "re_search ssid_pat out = None"
proof (rule ccontr)
  assume "re_search ssid_pat out \<noteq> None"
  then obtain m where "re_search ssid_pat out = Some m" by auto
  then obtain pre t where out: "out = pre @ t" and "re_match ssid_pat t = Some m"
    by (blast dest: re_search_SomeD)
  then obtain key v rest where "key = ''networkId'' \<or> key = ''wifiNetworkKey''" "v \<noteq> []"
    \<open>t = key @ ''="'' @ v @ ''"'' @ rest\<close>
    by (blast dest: ssid_pat_sound)
  with out have "quoted_key ''networkId'' out \<or> quoted_key ''wifiNetworkKey'' out"
    unfolding quoted_key_def by blast
  with assms show False by simp
qed

lemma quoted_key_sublist: \<open>quoted_key key out \<Longrightarrow> sublist (key @ ''="'') out\<close>
  unfolding quoted_key_def sublist_def by (metis append.assoc)

lemma not_sublist_examples:
  "\<not> sublist ''Max: '' ''- STREAM_MUSIC:\<newline>   Min: 0\<newline>   ''"
  "\<not> sublist ''Max:'' ''- STREAM_MUSIC:''"
  \<open>\<not> sublist ''networkId="'' ''iface=wlan0 ident=[{type=WIFI, ''\<close>
  \<open>\<not> sublist ''wifiNetworkKey="'' ''iface=wlan0 ident=[{type=WIFI, ''\<close>
  \<open>\<not> sublist ''networkId="'' ''iface=wlan0 ident=[{type=WIFI}]''\<close>
  \<open>\<not> sublist ''wifiNetworkKey="'' ''iface=wlan0 ident=[{type=WIFI}]''\<close>
  by (simp_all add: sublist_Cons_right)

lemma no_match_examples:
  "re_search ime_pat ''mShowRequested=false'' = None"
  "re_search timeout_pat ''mScreenOffTimeoutSetting=-1'' = None"
  "re_search name_pat ''  name: Pixel 6'' = None"
  "re_search max_pat ''   Max: 15'' = None"
  by (simp_all add: ime_pat_def timeout_pat_def name_pat_def max_pat_def re_match_def digit_def)

subsection \<open>Accessors that search the output of a command\<close>

lemma accessor_no_match:
  "m tr = (Inr out, tr') \<Longrightarrow> re_search p out = None \<Longrightarrow>
   bind_io m (\<lambda>out. case re_search p out of None \<Rightarrow> raise_io e | Some x \<Rightarrow> f x) tr = (Inl e, tr')"
  by (simp add: bind_io_def raise_io_def)

lemma search_accessor:
  "adb_shell d c None = Inr out \<Longrightarrow> re_search p out = r \<Longrightarrow>
   bind_io (shell d c None) (\<lambda>out. case re_search p out of None \<Rightarrow> n | Some m \<Rightarrow> f m) tr
     = (case r of None \<Rightarrow> n | Some m \<Rightarrow> f m) (tr @ [Shell c None])"
  by (simp add: bind_io_def shell_def)

text \<open>
  C3, as stated, fails: on a device that answers every command with the empty text,
  no pattern matches and each of \<open>is_ime_active\<close>, \<open>get_screen_timeout\<close>,
  \<open>get_bluetooth_name\<close> and \<open>get_max_volume_level\<close> raises \<open>AttributeError\<close>.
\<close>

theorem no_match_raises_example:
  \<open>is_ime_active (device [] 0) [] =
     (Inl AttributeError, [Shell ''dumpsys input_method | grep mInputShown'' None]) \<and>
   get_screen_timeout (device [] 0) [] =
     (Inl AttributeError, [Shell ''dumpsys power | grep  mScreenOffTimeoutSetting'' None]) \<and>
   get_bluetooth_name (device [] 0) [] =
     (Inl AttributeError, [Shell ''dumpsys bluetooth_manager'' None]) \<and>
   get_max_volume_level (device [] 0) [] =
     (Inl AttributeError, [Shell ''dumpsys audio | grep -A 5 "STREAM_MUSIC"'' None])\<close>
  by (simp add: is_ime_active_def get_screen_timeout_def get_bluetooth_name_def
      get_max_volume_level_def bind_io_def shell_def raise_io_def device_def answers_def
      ime_pat_def timeout_pat_def name_pat_def max_pat_def re_match_def)

text \<open>
  C3, amended. When the pattern of \<open>is_ime_active\<close>, \<open>get_screen_timeout\<close>,
  \<open>get_bluetooth_name\<close> or \<open>get_max_volume_level\<close> does not match the output of its
  command, the search itself gives \<open>None\<close> without raising, and the accessor, which
  calls \<open>.group(1)\<close> on that result, raises \<open>AttributeError\<close> to its caller after
  that one command; it returns no value.
\<close>

theorem no_match_raises:
  \<open>(adb_shell d ''dumpsys input_method | grep mInputShown'' None = Inr out \<and>
    re_search ime_pat out = None \<longrightarrow>
    is_ime_active d tr =
      (Inl AttributeError, tr @ [Shell ''dumpsys input_method | grep mInputShown'' None])) \<and>
   (adb_shell d ''dumpsys power | grep  mScreenOffTimeoutSetting'' None = Inr out \<and>
    re_search timeout_pat out = None \<longrightarrow>
    get_screen_timeout d tr =
      (Inl AttributeError,
       tr @ [Shell ''dumpsys power | grep  mScreenOffTimeoutSetting'' None])) \<and>
   (adb_shell d ''dumpsys bluetooth_manager'' None = Inr out \<and>
    re_search name_pat out = None \<longrightarrow>
    get_bluetooth_name d tr =
      (Inl AttributeError, tr @ [Shell ''dumpsys bluetooth_manager'' None])) \<and>
   (adb_shell d ''dumpsys audio | grep -A 5 "STREAM_MUSIC"'' None = Inr out \<and>
    re_search max_pat out = None \<longrightarrow>
    get_max_volume_level d tr =
      (Inl AttributeError, tr @ [Shell ''dumpsys audio | grep -A 5 "STREAM_MUSIC"'' None]))\<close>
  by (simp add: is_ime_active_def get_screen_timeout_def get_bluetooth_name_def
      get_max_volume_level_def accessor_no_match shell_def)

theorem no_match_raises_witness:
  \<open>is_ime_active dev_no_match [] =
     (Inl AttributeError, [Shell ''dumpsys input_method | grep mInputShown'' None]) \<and>
   get_screen_timeout dev_no_match [] =
     (Inl AttributeError, [Shell ''dumpsys power | grep  mScreenOffTimeoutSetting'' None]) \<and>
   get_bluetooth_name dev_no_match [] =
     (Inl AttributeError, [Shell ''dumpsys bluetooth_manager'' None]) \<and>
   get_max_volume_level dev_no_match [] =
     (Inl AttributeError, [Shell ''dumpsys audio | grep -A 5 "STREAM_MUSIC"'' None])\<close>
  using no_match_raises [of dev_no_match "''mShowRequested=false''" "[]"]
        no_match_raises [of dev_no_match "''mScreenOffTimeoutSetting=-1''" "[]"]
        no_match_raises [of dev_no_match "''  name: Pixel 6''" "[]"]
        no_match_raises [of dev_no_match "''   Max: 15''" "[]"]
  by (simp add: dev_no_match_def device_def answers_def no_match_examples del: re_search.simps)

text \<open>
  C5. When the output of \<open>getprop ro.build.version.release\<close> is not an integer
  literal, \<open>get_system_version\<close> raises the \<open>ValueError\<close> of \<open>int\<close>; when the text
  captured by the pattern of \<open>get_screen_timeout\<close> or \<open>get_max_volume_level\<close> is one
  that \<open>int\<close> refuses, the accessor raises that \<open>ValueError\<close>. In each case the
  error reaches the caller after the accessor's one command: nothing else is tried.
\<close>

theorem int_coercion_failure_propagates:
  \<open>(adb_shell d ''getprop ro.build.version.release'' None = Inr out \<and>
    py_int out = Inl ValueError \<longrightarrow>
    get_system_version d tr =
      (Inl ValueError, tr @ [Shell ''getprop ro.build.version.release'' None])) \<and>
   (adb_shell d ''dumpsys power | grep  mScreenOffTimeoutSetting'' None = Inr out \<and>
    re_search timeout_pat out = Some m \<and> group m 1 = Some g \<and> py_int g = Inl ValueError \<longrightarrow>
    get_screen_timeout d tr =
      (Inl ValueError, tr @ [Shell ''dumpsys power | grep  mScreenOffTimeoutSetting'' None])) \<and>
   (adb_shell d ''dumpsys audio | grep -A 5 "STREAM_MUSIC"'' None = Inr out \<and>
    re_search max_pat out = Some m \<and> group m 1 = Some g \<and> py_int g = Inl ValueError \<longrightarrow>
    get_max_volume_level d tr =
      (Inl ValueError, tr @ [Shell ''dumpsys audio | grep -A 5 "STREAM_MUSIC"'' None]))\<close>
  by (simp add: get_system_version_def get_screen_timeout_def get_max_volume_level_def
      bind_io_def shell_def lift_io_def int_of_group_def)

theorem int_coercion_failure_propagates_witness:
  \<open>get_system_version (dev_version ''8.1.0'') [] =
     (Inl ValueError, [Shell ''getprop ro.build.version.release'' None]) \<and>
   get_screen_timeout (dev_power (''mScreenOffTimeoutSetting='' @ long_digits)) [] =
     (Inl ValueError, [Shell ''dumpsys power | grep  mScreenOffTimeoutSetting'' None]) \<and>
   get_max_volume_level (dev_audio (''Max: '' @ long_digits @ ''\<newline>'')) [] =
     (Inl ValueError, [Shell ''dumpsys audio | grep -A 5 "STREAM_MUSIC"'' None])\<close>
  using int_coercion_failure_propagates
          [of "dev_version ''8.1.0''" "''8.1.0''" "[]"]
        int_coercion_failure_propagates
          [of "dev_power (''mScreenOffTimeoutSetting='' @ long_digits)"
              "''mScreenOffTimeoutSetting='' @ long_digits" "[]"
              "[(0, ''mScreenOffTimeoutSetting='' @ long_digits), (1, long_digits)]" long_digits]
        int_coercion_failure_propagates
          [of "dev_audio (''Max: '' @ long_digits @ ''\<newline>'')"
              "''Max: '' @ long_digits @ ''\<newline>''" "[]"
              "[(0, ''Max: '' @ long_digits @ ''\<newline>''), (1, long_digits)]" long_digits]
        timeout_pat_digits [OF long_digits_facts(1,2)]
        max_pat_digits [OF long_digits_facts(1,2), of "[]"]
        py_int_too_long [OF long_digits_facts(2,3)]
  by (simp add: dev_version_def dev_power_def dev_audio_def device_def answers_def
      py_int_release group_def)

text \<open>
  C7, as stated, fails: an output can contain the line \<open>Max: 15\<close> and yet
  \<open>get_max_volume_level\<close> returns another number, because the search takes the
  leftmost match.
\<close>

theorem max_volume_leftmost_example:
  \<open>sublist ''Max: 15\<newline>'' ''Max: 7\<newline>Max: 15\<newline>'' \<and>
   get_max_volume_level (dev_audio ''Max: 7\<newline>Max: 15\<newline>'') [] =
     (Inr 7, [Shell ''dumpsys audio | grep -A 5 "STREAM_MUSIC"'' None])\<close>
proof -
  have "sublist ''Max: 15\<newline>'' (''Max: 7\<newline>'' @ ''Max: 15\<newline>'' @ [])"
    by (rule sublist_appendI)
  moreover have "py_int ''7'' = Inr 7"
    by (simp add: py_int_def strip_sign_def is_space_def is_digit_def digit_val_def
        int_max_str_digits_def)
  ultimately show ?thesis
    by (simp add: get_max_volume_level_def bind_io_def shell_def lift_io_def dev_audio_def
        device_def answers_def max_pat_def re_match_def digit_def group_def int_of_group_def)
qed

text \<open>
  C7, amended. When the output contains \<open>Max: 15\<close> followed by a newline and the
  text before it does not contain \<open>Max: \<close>, \<open>get_max_volume_level\<close> returns 15.
  When the output does not contain \<open>Max:\<close> at all, the search finds no match, and
  the accessor raises \<open>AttributeError\<close> rather than returning a value.
\<close>

theorem max_volume_first_line:
  \<open>(adb_shell d ''dumpsys audio | grep -A 5 "STREAM_MUSIC"'' None
      = Inr (pre @ ''Max: 15\<newline>'' @ post) \<and>
    \<not> sublist ''Max: '' pre \<longrightarrow>
    get_max_volume_level d tr =
      (Inr 15, tr @ [Shell ''dumpsys audio | grep -A 5 "STREAM_MUSIC"'' None])) \<and>
   (adb_shell d ''dumpsys audio | grep -A 5 "STREAM_MUSIC"'' None = Inr out \<and>
    \<not> sublist ''Max:'' out \<longrightarrow>
    re_search max_pat out = None \<and>
    get_max_volume_level d tr =
      (Inl AttributeError, tr @ [Shell ''dumpsys audio | grep -A 5 "STREAM_MUSIC"'' None]))\<close>
proof (intro conjI impI; elim conjE)
  assume a: \<open>adb_shell d ''dumpsys audio | grep -A 5 "STREAM_MUSIC"'' None
            = Inr (pre @ ''Max: 15\<newline>'' @ post)\<close> and b: "\<not> sublist ''Max: '' pre"
  have s: "re_search max_pat (pre @ ''Max: 15\<newline>'' @ post)
             = Some [(0, ''Max: 15\<newline>''), (1, ''15'')]"
    using b by (rule max_pat_first)
  show \<open>get_max_volume_level d tr =
      (Inr 15, tr @ [Shell ''dumpsys audio | grep -A 5 "STREAM_MUSIC"'' None])\<close>
    unfolding get_max_volume_level_def
    using search_accessor [OF a s, where n = "raise_io AttributeError"
        and f = "\<lambda>m. lift_io (int_of_group (group m 1))" and tr = tr]
    by (simp add: lift_io_def int_of_group_def group_def py_int_15)
next
  assume a: \<open>adb_shell d ''dumpsys audio | grep -A 5 "STREAM_MUSIC"'' None = Inr out\<close>
    and b: "\<not> sublist ''Max:'' out"
  from b show s: "re_search max_pat out = None" by (rule max_pat_no_Max)
  show \<open>get_max_volume_level d tr =
      (Inl AttributeError, tr @ [Shell ''dumpsys audio | grep -A 5 "STREAM_MUSIC"'' None])\<close>
    unfolding get_max_volume_level_def
    using search_accessor [OF a s, where n = "raise_io AttributeError"
        and f = "\<lambda>m. lift_io (int_of_group (group m 1))" and tr = tr]
    by (simp add: raise_io_def)
qed

theorem max_volume_first_line_witness:
  \<open>get_max_volume_level
     (dev_audio (''- STREAM_MUSIC:\<newline>   Min: 0\<newline>   '' @ ''Max: 15\<newline>'' @ ''   streamVolume:5'')) []
     = (Inr 15, [Shell ''dumpsys audio | grep -A 5 "STREAM_MUSIC"'' None]) \<and>
   re_search max_pat ''- STREAM_MUSIC:'' = None \<and>
   get_max_volume_level (dev_audio ''- STREAM_MUSIC:'') []
     = (Inl AttributeError, [Shell ''dumpsys audio | grep -A 5 "STREAM_MUSIC"'' None])\<close>
  using max_volume_first_line
          [of "dev_audio (''- STREAM_MUSIC:\<newline>   Min: 0\<newline>   '' @ ''Max: 15\<newline>'' @ ''   streamVolume:5'')"
              "''- STREAM_MUSIC:\<newline>   Min: 0\<newline>   ''" "''   streamVolume:5''" "[]",
           THEN conjunct1]
        max_volume_first_line
          [of "dev_audio ''- STREAM_MUSIC:''" _ _ "[]" "''- STREAM_MUSIC:''", THEN conjunct2]
        not_sublist_examples(1,2)
  by (simp add: dev_audio_def device_def answers_def del: re_search.simps)

text \<open>
  C8, as stated, fails: an output can contain \<^verbatim>\<open>networkId="abc123"\<close> and yet
  \<open>get_current_ssid\<close> returns another name, because the search takes the leftmost
  match.
\<close>

theorem ssid_leftmost_example:
  \<open>sublist ''networkId="abc123"'' ''networkId="home"\<newline>networkId="abc123"'' \<and>
   get_current_ssid (dev_netstats ''networkId="home"\<newline>networkId="abc123"'') [] =
     (Inr (Some ''home''), [Shell ''dumpsys netstats | grep -E "iface=wlan"'' None])\<close>
proof -
  have \<open>sublist ''networkId="abc123"'' (''networkId="home"\<newline>'' @ ''networkId="abc123"'' @ [])\<close>
    by (rule sublist_appendI)
  then show ?thesis
    by (simp add: get_current_ssid_def bind_io_def shell_def return_io_def dev_netstats_def
        device_def answers_def ssid_pat_def re_match_def group_def)
qed

text \<open>
  C8, amended. When the output contains \<^verbatim>\<open>networkId="abc123"\<close> and the text
  before it contains neither \<^verbatim>\<open>networkId="\<close> nor \<^verbatim>\<open>wifiNetworkKey="\<close>,
  \<open>get_current_ssid\<close> returns \<open>abc123\<close>, the second group. When the output has
  neither key with a quoted non-empty value, \<open>get_current_ssid\<close> returns \<open>None\<close>
  and does not raise.
\<close>

theorem ssid_first_key:
  \<open>(adb_shell d ''dumpsys netstats | grep -E "iface=wlan"'' None
      = Inr (pre @ ''networkId="abc123"'' @ post) \<and>
    \<not> sublist ''networkId="'' pre \<and> \<not> sublist ''wifiNetworkKey="'' pre \<longrightarrow>
    get_current_ssid d tr =
      (Inr (Some ''abc123''), tr @ [Shell ''dumpsys netstats | grep -E "iface=wlan"'' None])) \<and>
   (adb_shell d ''dumpsys netstats | grep -E "iface=wlan"'' None = Inr out \<and>
    \<not> quoted_key ''networkId'' out \<and> \<not> quoted_key ''wifiNetworkKey'' out \<longrightarrow>
    get_current_ssid d tr =
      (Inr None, tr @ [Shell ''dumpsys netstats | grep -E "iface=wlan"'' None]))\<close>
proof (intro conjI impI; elim conjE)
  assume a: \<open>adb_shell d ''dumpsys netstats | grep -E "iface=wlan"'' None
            = Inr (pre @ ''networkId="abc123"'' @ post)\<close>
    and \<open>\<not> sublist ''networkId="'' pre\<close> \<open>\<not> sublist ''wifiNetworkKey="'' pre\<close>
  then obtain m where s: \<open>re_search ssid_pat (pre @ ''networkId="abc123"'' @ post) = Some m\<close>
    and g: \<open>group m 2 = Some ''abc123''\<close>
    using ssid_pat_first by blast
  show \<open>get_current_ssid d tr =
      (Inr (Some ''abc123''), tr @ [Shell ''dumpsys netstats | grep -E "iface=wlan"'' None])\<close>
    unfolding get_current_ssid_def
    using search_accessor [OF a s, where n = "return_io None"
        and f = "\<lambda>m. return_io (group m 2)" and tr = tr] g
    by (simp add: return_io_def)
next
  assume a: \<open>adb_shell d ''dumpsys netstats | grep -E "iface=wlan"'' None = Inr out\<close>
    and "\<not> quoted_key ''networkId'' out" "\<not> quoted_key ''wifiNetworkKey'' out"
  then have s: "re_search ssid_pat out = None" using ssid_pat_no_key by blast
  show \<open>get_current_ssid d tr =
      (Inr None, tr @ [Shell ''dumpsys netstats | grep -E "iface=wlan"'' None])\<close>
    unfolding get_current_ssid_def
    using search_accessor [OF a s, where n = "return_io None"
        and f = "\<lambda>m. return_io (group m 2)" and tr = tr]
    by (simp add: return_io_def)
qed

theorem ssid_first_key_witness:
  \<open>get_current_ssid
     (dev_netstats (''iface=wlan0 ident=[{type=WIFI, '' @ ''networkId="abc123"'' @ ''}]'')) []
     = (Inr (Some ''abc123''), [Shell ''dumpsys netstats | grep -E "iface=wlan"'' None]) \<and>
   get_current_ssid (dev_netstats ''iface=wlan0 ident=[{type=WIFI}]'') []
     = (Inr None, [Shell ''dumpsys netstats | grep -E "iface=wlan"'' None])\<close>
proof -
  have \<open>\<not> quoted_key ''networkId'' ''iface=wlan0 ident=[{type=WIFI}]''\<close>
    \<open>\<not> quoted_key ''wifiNetworkKey'' ''iface=wlan0 ident=[{type=WIFI}]''\<close>
    using not_sublist_examples(5,6) by (auto dest: quoted_key_sublist)
  then show ?thesis
    using ssid_first_key
          [of \<open>dev_netstats (''iface=wlan0 ident=[{type=WIFI, '' @ ''networkId="abc123"'' @ ''}]'')\<close>
              "''iface=wlan0 ident=[{type=WIFI, ''" "''}]''" "[]", THEN conjunct1]
        ssid_first_key
          [of "dev_netstats ''iface=wlan0 ident=[{type=WIFI}]''" _ _ "[]"
              "''iface=wlan0 ident=[{type=WIFI}]''", THEN conjunct2]
        not_sublist_examples(3,4)
    by (simp add: dev_netstats_def device_def answers_def)
qed

end
